theory Spec2Isabelle
  imports Complex_Main "HOL-Library.Product_Lexorder"
begin

section \<open>Data model of \<open>control/rover.py\<close>\<close>

text \<open>
  The program keeps its numbers in \<open>float64\<close> arrays. They are modelled as real numbers:
  the rounding of each operation and the infinities are left out. Two things of the
  floating-point world are kept. The special value the code tests for (\<open>math.isnan\<close> on a
  radius): a radius is a \<open>reading\<close>, either \<open>NaN\<close> (the sensor saw nothing) or a real
  distance. And the constant \<open>np.pi\<close>, which is a \<open>float64\<close> and so a rational number
  close to, but not equal to, the number pi. Angles and the pose are plain reals.
  A two-column \<open>ndarray\<close> of a channel is the list of its rows \<open>(angle, radius)\<close>, and the
  value returned by \<open>Rover.scan\<close> is the pair \<open>(ir_data, sonar_data)\<close>.
  The matplotlib figure, the \<open>draw\<close> calls and the danger lists (never written by the
  code) are not part of the state.
\<close>

datatype reading = NaN | Val real

type_synonym channel = "(real \<times> reading) list"
type_synonym scan_data = "channel \<times> channel"
type_synonym point = "real \<times> real"

datatype error = NotImplementedError | ValueError | HardwareError

text \<open>\<open>Circle(self._loc, radius = 16.25)\<close> and \<open>Wedge(self._loc, 100, theta1, theta2)\<close>.\<close>

record circle =
  center :: point
  radius :: real

record wedge =
  wedge_center :: point
  wedge_r :: real
  theta1 :: real
  theta2 :: real

text \<open>A contour is what \<open>self.view.plot(xs, ys)\<close> was given.\<close>

type_synonym contour = "real list \<times> real list"

record Environment =
  env_loc :: point
  env_direction :: real
  breadcrumbs :: "circle list"
  ir_obs :: "(reading \<times> reading) list list"
  sonar_obs :: "(reading \<times> reading) list list"
  contours :: "contour list"
  volatile_contours :: "contour list"
  scan_field :: "wedge option"

section \<open>Environment\<close>

definition update_scan_field :: "Environment \<Rightarrow> Environment" where
  "update_scan_field e =
     e\<lparr>scan_field := Some \<lparr>wedge_center = env_loc e, wedge_r = 100,
                            theta1 = env_direction e - 90, theta2 = env_direction e + 90\<rparr>\<rparr>"

text \<open>\<open>Environment.__init__\<close>: at the origin, directed upward, every list empty.\<close>

definition Environment_init :: Environment where
  "Environment_init =
     update_scan_field
       \<lparr>env_loc = (0, 0), env_direction = 90, breadcrumbs = [], ir_obs = [], sonar_obs = [],
        contours = [], volatile_contours = [], scan_field = None\<rparr>"

text \<open>
  \<open>loc(new_loc = None)\<close> and \<open>direction(new_direction = None)\<close> are getter and setter in one:
  without an argument they return the field, with one they store it and return nothing.
  The model returns the pair of the returned value and the state.
\<close>

definition loc :: "Environment \<Rightarrow> point option \<Rightarrow> point option \<times> Environment" where
  "loc e new_loc =
     (case new_loc of
        None \<Rightarrow> (Some (env_loc e), e)
      | Some p \<Rightarrow> (None, update_scan_field (e\<lparr>env_loc := p\<rparr>)))"

definition direction :: "Environment \<Rightarrow> real option \<Rightarrow> real option \<times> Environment" where
  "direction e new_direction =
     (case new_direction of
        None \<Rightarrow> (Some (env_direction e), e)
      | Some d \<Rightarrow> (None, update_scan_field (e\<lparr>env_direction := d\<rparr>)))"

text \<open>
  \<open>np.pi\<close> is the \<open>float64\<close> nearest to pi, \<open>3.141592653589793\<close> when printed; its exact
  value is \<open>884279719003555 / 2 ^ 48\<close>. \<open>np.cos\<close> and \<open>np.sin\<close> are the cosine and the
  sine (numpy returns their values rounded to \<open>float64\<close>).
\<close>

definition np_pi :: real where
  "np_pi = 884279719003555 / 281474976710656"

text \<open>
  \<open>conv_radial(theta, r)\<close>:
  \<^verbatim>\<open>theta_prime = (theta - 90.0 + self._direction) * (np.pi / 180.0)\<close>,
  \<^verbatim>\<open>return (r * np.cos(theta_prime) + self._loc[0], r * np.sin(theta_prime) + self._loc[1])\<close>.
\<close>

definition conv_radial :: "Environment \<Rightarrow> real \<Rightarrow> real \<Rightarrow> point" where
  "conv_radial e theta r =
     (let theta_prime = (theta - 90 + env_direction e) * (np_pi / 180)
      in (r * cos theta_prime + fst (env_loc e), r * sin theta_prime + snd (env_loc e)))"

text \<open>\<open>r * c + d\<close> on a radius that may be \<open>NaN\<close>: \<open>NaN\<close> stays \<open>NaN\<close>.\<close>

fun scale_shift :: "reading \<Rightarrow> real \<Rightarrow> real \<Rightarrow> reading" where
  "scale_shift NaN c d = NaN"
| "scale_shift (Val r) c d = Val (r * c + d)"

text \<open>
  \<open>conv_radial_arr(thetas, rs)\<close>: the same map on whole columns; it raises \<open>ValueError\<close>
  when the columns differ in length.
\<close>

definition conv_radial_arr ::
  "Environment \<Rightarrow> real list \<Rightarrow> reading list \<Rightarrow> error + (reading \<times> reading) list" where
  "conv_radial_arr e thetas rs =
     (if length thetas \<noteq> length rs then Inl ValueError
      else Inr (map (\<lambda>(theta, r).
                  let theta_prime = (theta - 90 + env_direction e) * (np_pi / 180)
                  in (scale_shift r (cos theta_prime) (fst (env_loc e)),
                      scale_shift r (sin theta_prime) (snd (env_loc e))))
                (zip thetas rs)))"

text \<open>
  \<open>add_scan(scan_data)\<close>:
  \<^verbatim>\<open>ir_data = self.conv_radial_arr(ir_data[:, 0], ir_data[:, 1])\<close>,
  \<^verbatim>\<open>sonar_data = self.conv_radial_arr(sonar_data[:, 0], sonar_data[:, 0])\<close>;
  both results are appended to \<open>ir_obs\<close> and \<open>sonar_obs\<close>. The sonar call passes column 0
  twice, so the angle column is what it receives as radii.
\<close>

definition Environment_add_scan :: "Environment \<Rightarrow> scan_data \<Rightarrow> error + Environment" where
  "Environment_add_scan e scan =
     (let ir_data = fst scan; sonar_data = snd scan in
      case conv_radial_arr e (map fst ir_data) (map snd ir_data) of
        Inl err \<Rightarrow> Inl err
      | Inr ir_pts \<Rightarrow>
          (case conv_radial_arr e (map fst sonar_data) (map (\<lambda>row. Val (fst row)) sonar_data) of
             Inl err \<Rightarrow> Inl err
           | Inr sonar_pts \<Rightarrow>
               Inr (e\<lparr>ir_obs := ir_obs e @ [ir_pts], sonar_obs := sonar_obs e @ [sonar_pts]\<rparr>)))"

definition add_breadcumb :: "Environment \<Rightarrow> Environment" where
  "add_breadcumb e = e\<lparr>breadcrumbs := breadcrumbs e @ [\<lparr>center = env_loc e, radius = 16.25\<rparr>]\<rparr>"

text \<open>
  \<open>move(dist)\<close>: \<open>self.add_breadcumb()\<close>, then \<open>new_loc = self.conv_radial(90, dist)\<close>, then
  \<open>self.loc(new_loc)\<close>.
\<close>

definition Environment_move :: "Environment \<Rightarrow> real \<Rightarrow> Environment" where
  "Environment_move e distance =
     (let e1 = add_breadcumb e;
          new_loc = conv_radial e1 90 distance
      in snd (loc e1 (Some new_loc)))"

definition Environment_rotate :: "Environment \<Rightarrow> real \<Rightarrow> Environment" where
  "Environment_rotate e delta = snd (direction e (Some (env_direction e + delta)))"

text \<open>\<open>add_danger\<close> only writes a line to \<open>stderr\<close>; the state is unchanged.\<close>

definition add_danger :: "Environment \<Rightarrow> 'd \<Rightarrow> Environment" where
  "add_danger e danger_id = e"

definition add_contour :: "Environment \<Rightarrow> real list \<Rightarrow> real list \<Rightarrow> bool \<Rightarrow> Environment" where
  "add_contour e xs ys volatile =
     (if volatile then e\<lparr>volatile_contours := volatile_contours e @ [(xs, ys)]\<rparr>
      else e\<lparr>contours := contours e @ [(xs, ys)]\<rparr>)"

text \<open>
  \<open>_clear_volatile_contours\<close> has a docstring ("Removes all volatile contours from the
  Environment plot and from the internal list") and a body of comments only: it does nothing.
\<close>

definition clear_volatile_contours :: "Environment \<Rightarrow> Environment" where
  "clear_volatile_contours e = e"

text \<open>
  \<open>finalize_contours\<close>: \<open>self.contours.extend(self.volatile_contours)\<close>, then
  \<open>self._clear_volatile_contours()\<close>.
\<close>

definition finalize_contours :: "Environment \<Rightarrow> Environment" where
  "finalize_contours e =
     clear_volatile_contours (e\<lparr>contours := contours e @ volatile_contours e\<rparr>)"

section \<open>Scanner\<close>

record Scanner =
  scans :: "scan_data list"
  scanner_contours :: "contour list"

definition Scanner_init :: Scanner where
  "Scanner_init = \<lparr>scans = [], scanner_contours = []\<rparr>"

text \<open>\<open>Scanner.add_scan\<close>: \<open>self.scans.append(scan_data)\<close> (the rest only plots).\<close>

definition Scanner_add_scan :: "Scanner \<Rightarrow> scan_data \<Rightarrow> Scanner" where
  "Scanner_add_scan sc scan = sc\<lparr>scans := scans sc @ [scan]\<rparr>"

text \<open>
  \<open>np.sort(a, axis=0)\<close> on a two-column array sorts along the first axis, that is, each
  column on its own: the angle column ascending, and the radius column ascending with
  every \<open>NaN\<close> after the numbers (numpy's order on floats). Row \<open>i\<close> of the result pairs
  the \<open>i\<close>-th smallest angle with the \<open>i\<close>-th smallest radius.
\<close>

fun nan_last :: "reading \<Rightarrow> bool \<times> real" where
  "nan_last NaN = (True, 0)"
| "nan_last (Val x) = (False, x)"

definition np_sort_axis0 :: "channel \<Rightarrow> channel" where
  "np_sort_axis0 a = zip (sort (map fst a)) (sort_key nan_last (map snd a))"

text \<open>The slice \<open>a[i:j]\<close> for indices \<open>0 \<le> i\<close>, \<open>0 \<le> j\<close>; it is cut at the end of \<open>a\<close>.\<close>

definition slice :: "'a list \<Rightarrow> nat \<Rightarrow> nat \<Rightarrow> 'a list" where
  "slice xs i j = take (j - i) (drop i xs)"

text \<open>
  The first part of \<open>find_obj_clouds\<close>, up to the sorted \<open>comb_scans\<close>:
  \<^verbatim>\<open>if len(self.scans) < 1: raise NotImplementedError()\<close>,
  \<^verbatim>\<open>comb_scans = self.scans[0][0], self.scans[0][1]\<close>, then for every later scan
  \<^verbatim>\<open>comb_scans = np.append(comb_scans[0], self.scans[i][0], axis=0), np.append(comb_scans[1], self.scans[i][1], axis=0)\<close>,
  and last
  \<^verbatim>\<open>comb_scans = np.sort(comb_scans[0], axis=0), np.sort(comb_scans[1], axis=0)\<close>.
\<close>

definition comb_scans :: "Scanner \<Rightarrow> error + (channel \<times> channel)" where
  "comb_scans sc =
     (case scans sc of
        [] \<Rightarrow> Inl NotImplementedError
      | s0 # rest \<Rightarrow>
          (let comb = foldl (\<lambda>c s. (fst c @ fst s, snd c @ snd s)) (fst s0, snd s0) rest
           in Inr (np_sort_axis0 (fst comb), np_sort_axis0 (snd comb))))"

text \<open>
  The loop over the IR rows. Its variables are the fields of \<open>seg_state\<close>.
  \<open>start_deg\<close> starts as the integer \<open>0\<close> and is reset to it after every run; the tests
  \<open>start_deg is 0\<close> and \<open>start_deg is not 0\<close> compare identity, and an angle read from the
  array is a \<open>float64\<close> object, never that integer, so the tests tell whether a run is
  open. \<open>None\<close> stands for the integer \<open>0\<close>.
  The loop appends \<open>comb_scans[0][start_deg_index:end_deg_index]\<close> and the same slice of
  \<open>comb_scans[1]\<close>; the model's \<open>obj_list\<close> holds the index pair, and
  \<open>find_obj_clouds\<close> takes the slices (the arrays do not change during the loop).
  In the second test, \<open>len(comb_scans[0] - 1)\<close> subtracts 1 from every entry of the
  array and takes the length of the result, which is the number of rows.
\<close>

record seg_state =
  start_deg :: "real option"
  start_deg_index :: nat
  end_deg :: real
  end_deg_index :: nat
  obj_list :: "(nat \<times> nat) list"

definition seg_init :: seg_state where
  "seg_init =
     \<lparr>start_deg = None, start_deg_index = 0, end_deg = 0, end_deg_index = 0, obj_list = []\<rparr>"

definition min_width :: real where
  "min_width = 3"

definition seg_step :: "channel \<Rightarrow> nat \<Rightarrow> seg_state \<Rightarrow> seg_state" where
  "seg_step ir i st =
     (if snd (ir ! i) \<noteq> NaN \<and> start_deg st = None then
        st\<lparr>start_deg := Some (fst (ir ! i)), start_deg_index := i\<rparr>
      else if (snd (ir ! i) = NaN \<or> i = length ir) \<and> start_deg st \<noteq> None then
        (if fst (ir ! i) - the (start_deg st) > min_width then
           st\<lparr>end_deg := fst (ir ! i), end_deg_index := i,
              obj_list := obj_list st @ [(start_deg_index st, i)]\<rparr>
         else st)\<lparr>start_deg := None\<rparr>
      else st)"

text \<open>\<open>for i in range(0, len(comb_scans[0]))\<close>: the index ranges of the emitted objects.\<close>

definition obj_ranges :: "channel \<Rightarrow> (nat \<times> nat) list" where
  "obj_ranges ir = obj_list (fold (seg_step ir) [0..<length ir] seg_init)"

definition find_obj_clouds :: "Scanner \<Rightarrow> error + (channel \<times> channel) list" where
  "find_obj_clouds sc =
     (case comb_scans sc of
        Inl err \<Rightarrow> Inl err
      | Inr comb \<Rightarrow>
          Inr (map (\<lambda>(i, j). (slice (fst comb) i j, slice (snd comb) i j))
                   (obj_ranges (fst comb))))"

section \<open>Rover\<close>

text \<open>
  \<open>range(i, stop, step)\<close>: from \<open>i\<close> in steps of \<open>step\<close> while \<open>stop\<close> is not reached.
  (A step of \<open>0\<close> raises in Python; the program passes \<open>1\<close> and \<open>-1\<close> only.)
\<close>

function py_range :: "int \<Rightarrow> int \<Rightarrow> int \<Rightarrow> int list" where
  "py_range i stop step =
     (if (0 < step \<and> i < stop) \<or> (step < 0 \<and> stop < i)
      then i # py_range (i + step) stop step else [])"
  by pat_completeness auto
termination
  by (relation "measure (\<lambda>(i, stop, step). nat (if 0 < step then stop - i else i - stop))") auto

declare py_range.simps [simp del]

text \<open>
  The angles of \<open>Rover.scan(start, end)\<close>, one reading being requested for each:
  \<^verbatim>\<open>if start <= end: angles = [i for i in range(start, end)]\<close>,
  \<^verbatim>\<open>else: angles = [i for i in range(end, start, -1)]\<close>.
\<close>

definition scan_angles :: "int \<Rightarrow> int \<Rightarrow> int list" where
  "scan_angles start end_angle =
     (if start \<le> end_angle then py_range start end_angle 1
      else py_range end_angle start (- 1))"

record Rover =
  env :: Environment
  scanner :: Scanner

definition Rover_init :: Rover where
  "Rover_init = \<lparr>env = Environment_init, scanner = Scanner_init\<rparr>"

text \<open>
  \<open>Rover.scan\<close>. The servo converter, the sensor and the two calibration converters are
  collaborators outside this file; they are parameters. When both flags are false the
  data is returned, otherwise it is passed on and nothing is returned.
\<close>

definition Rover_scan ::
  "(int list \<Rightarrow> 'pw list) \<Rightarrow> ('pw list \<Rightarrow> scan_data) \<Rightarrow> (reading \<Rightarrow> reading)
   \<Rightarrow> (reading \<Rightarrow> reading) \<Rightarrow> Rover \<Rightarrow> int \<Rightarrow> int \<Rightarrow> bool \<Rightarrow> bool
   \<Rightarrow> error + (scan_data option \<times> Rover)" where
  "Rover_scan servo_conv sensors_scan ir_conv sonar_conv r start end_angle updt_scan updt_env =
     (let angles = scan_angles start end_angle;
          pulse_widths = servo_conv angles;
          raw = sensors_scan pulse_widths;
          ir_data = map (\<lambda>row. (fst row, ir_conv (snd row))) (fst raw);
          sonar_data = map (\<lambda>row. (fst row, sonar_conv (snd row))) (snd raw);
          rv = (ir_data, sonar_data)
      in if \<not> updt_scan \<and> \<not> updt_env then Inr (Some rv, r)
         else
           (let r1 = (if updt_scan then r\<lparr>scanner := Scanner_add_scan (scanner r) rv\<rparr> else r)
            in if updt_env then
                 (case Environment_add_scan (env r1) rv of
                    Inl err \<Rightarrow> Inl err
                  | Inr e \<Rightarrow> Inr (None, r1\<lparr>env := e\<rparr>))
               else Inr (None, r1)))"

text \<open>
  \<open>_finalize_for_reorientation\<close>: \<open>self.scanner = Scanner()\<close>, then
  \<open>self.env.finalize_contours()\<close>.
\<close>

definition finalize_for_reorientation :: "Rover \<Rightarrow> Rover" where
  "finalize_for_reorientation r =
     (let r1 = r\<lparr>scanner := Scanner_init\<rparr>
      in r1\<lparr>env := finalize_contours (env r1)\<rparr>)"

text \<open>
  \<open>Rover.move\<close> and \<open>Rover.rotate\<close>. The actuator calls \<open>oi.move\<close> and \<open>oi.rotate\<close> are
  parameters: \<open>oi_move\<close> answers with the distance travelled and the stop reason, or with
  \<open>None\<close> when the call raises, and \<open>oi_rotate\<close> tells whether the call returned. An
  exception leaves the rover as it is at that point. \<open>full_distance\<close> is
  \<open>OIStopID.full_distance\<close> of the module \<open>codes\<close>.
\<close>

definition Rover_move ::
  "'stop \<Rightarrow> (real \<Rightarrow> real \<Rightarrow> (real \<times> 'stop) option) \<Rightarrow> Rover \<Rightarrow> real \<Rightarrow> real
   \<Rightarrow> error option \<times> Rover" where
  "Rover_move full_distance oi_move r distance speed =
     (let r1 = finalize_for_reorientation r in
      case oi_move distance speed of
        None \<Rightarrow> (Some HardwareError, r1)
      | Some (travelled, stop_reason) \<Rightarrow>
          (let r2 = r1\<lparr>env := Environment_move (env r1) travelled\<rparr>;
               r3 = (if stop_reason \<noteq> full_distance
                     then r2\<lparr>env := add_danger (env r2) stop_reason\<rparr> else r2)
           in (None, r3)))"

definition Rover_rotate :: "(real \<Rightarrow> bool) \<Rightarrow> Rover \<Rightarrow> real \<Rightarrow> error option \<times> Rover" where
  "Rover_rotate oi_rotate r delta =
     (let r1 = finalize_for_reorientation r in
      if oi_rotate delta then (None, r1\<lparr>env := Environment_rotate (env r1) delta\<rparr>)
      else (Some HardwareError, r1))"

subsection \<open>The order of the statements of \<open>move\<close> and \<open>rotate\<close>\<close>

text \<open>
  To speak about what happens before what, the same two methods are written once more as
  the list of their state-changing statements, in the order of the source; \<open>run_steps\<close>
  gives the rover before the first statement and after each one. The external call
  changes nothing of the rover and is not a step; when it raises, the statements after
  it are not run.
\<close>

fun run_steps :: "('s \<Rightarrow> 's) list \<Rightarrow> 's \<Rightarrow> 's list" where
  "run_steps [] s = [s]"
| "run_steps (f # fs) s = s # run_steps fs (f s)"

definition finalize_steps :: "(Rover \<Rightarrow> Rover) list" where
  "finalize_steps =
     [\<lambda>r. r\<lparr>scanner := Scanner_init\<rparr>,
      \<lambda>r. r\<lparr>env := finalize_contours (env r)\<rparr>]"

definition move_steps :: "'stop \<Rightarrow> (real \<times> 'stop) option \<Rightarrow> (Rover \<Rightarrow> Rover) list" where
  "move_steps full_distance answer =
     finalize_steps @
     (case answer of
        None \<Rightarrow> []
      | Some (travelled, stop_reason) \<Rightarrow>
          [\<lambda>r. r\<lparr>env := Environment_move (env r) travelled\<rparr>] @
          (if stop_reason \<noteq> full_distance
           then [\<lambda>r. r\<lparr>env := add_danger (env r) stop_reason\<rparr>] else []))"

definition Rover_move_states ::
  "'stop \<Rightarrow> (real \<Rightarrow> real \<Rightarrow> (real \<times> 'stop) option) \<Rightarrow> Rover \<Rightarrow> real \<Rightarrow> real
   \<Rightarrow> Rover list" where
  "Rover_move_states full_distance oi_move r distance speed =
     run_steps (move_steps full_distance (oi_move distance speed)) r"

definition rotate_steps :: "bool \<Rightarrow> real \<Rightarrow> (Rover \<Rightarrow> Rover) list" where
  "rotate_steps returned delta =
     finalize_steps @
     (if returned then [\<lambda>r. r\<lparr>env := Environment_rotate (env r) delta\<rparr>] else [])"

definition Rover_rotate_states :: "(real \<Rightarrow> bool) \<Rightarrow> Rover \<Rightarrow> real \<Rightarrow> Rover list" where
  "Rover_rotate_states oi_rotate r delta = run_steps (rotate_steps (oi_rotate delta) delta) r"

definition pose :: "Rover \<Rightarrow> point \<times> real" where
  "pose r = (env_loc (env r), env_direction (env r))"

text \<open>
  A run \<open>sts\<close> from \<open>r\<close> finalizes before it changes the pose: its first statement puts a
  fresh scanner in place, its second one is \<open>finalize_contours\<close>, and a statement that
  changes the location or the heading has at least these two before it.
\<close>

definition finalized_before_pose_change :: "Rover \<Rightarrow> Rover list \<Rightarrow> bool" where
  "finalized_before_pose_change r sts \<longleftrightarrow>
     3 \<le> length sts
     \<and> sts ! 0 = r
     \<and> sts ! 1 = r\<lparr>scanner := Scanner_init\<rparr>
     \<and> sts ! 2 = r\<lparr>scanner := Scanner_init, env := finalize_contours (env r)\<rparr>
     \<and> (\<forall>k. Suc k < length sts \<and> pose (sts ! Suc k) \<noteq> pose (sts ! k) \<longrightarrow> 2 \<le> k)"

section \<open>Invariant of the segmentation loop\<close>


section \<open>Properties of the environment\<close>

subsection \<open>The cosine and the sine at \<open>np.pi / 2\<close>\<close>

text \<open>
  Heading 90 and sweep angle 90 give \<open>theta_prime = 90 * (np.pi / 180)\<close>, half of \<open>np.pi\<close>.
  It is a little less than a right angle, so its cosine is a small positive number and not
  0. The bounds come from the Taylor polynomial of the cosine of degree 24 and its
  remainder.
\<close>

lemma cos_taylor_26:
  "(\<Sum>m<26. cos_coeff m * x ^ m) =
     1 - x^2 / fact 2 + x^4 / fact 4 - x^6 / fact 6 + x^8 / fact 8 - x^10 / fact 10
       + x^12 / fact 12 - x^14 / fact 14 + x^16 / fact 16 - x^18 / fact 18
       + x^20 / fact 20 - x^22 / fact 22 + x^24 / fact 24" for x :: real
  by (simp add: lessThan_nat_numeral cos_coeff_def lessThan_Suc)

lemma cos_taylor_lower:
  "6 / 10 ^ 17 \<le> (\<Sum>m<26. cos_coeff m * (np_pi / 2) ^ m) - (np_pi / 2) ^ 26 / fact 26"
  unfolding cos_taylor_26 np_pi_def by (simp add: fact_numeral power_divide)

lemma cos_taylor_upper:
  "(\<Sum>m<26. cos_coeff m * (np_pi / 2) ^ m) + (np_pi / 2) ^ 26 / fact 26 \<le> 7 / 10 ^ 17"
  unfolding cos_taylor_26 np_pi_def by (simp add: fact_numeral power_divide)

lemma cos_half_np_pi: "6 / 10 ^ 17 \<le> cos (np_pi / 2) \<and> cos (np_pi / 2) \<le> 7 / 10 ^ 17"
proof -
  let ?q = "np_pi / 2"
  let ?P = "\<Sum>m<26. cos_coeff m * ?q ^ m"
  obtain t where t: "cos ?q = ?P + cos (t + 1 / 2 * real 26 * pi) / fact 26 * ?q ^ 26"
    using Maclaurin_cos_expansion [of ?q 26] by blast
  let ?c = "cos (t + 1 / 2 * real 26 * pi)"
  have q0: "0 \<le> ?q ^ 26 / fact 26" by (simp add: np_pi_def)
  have "\<bar>?c / fact 26 * ?q ^ 26\<bar> = \<bar>?c\<bar> * (?q ^ 26 / fact 26)"
    by (simp add: abs_mult np_pi_def)
  also have "\<dots> \<le> 1 * (?q ^ 26 / fact 26)"
    by (rule mult_right_mono [OF abs_cos_le_one q0])
  finally have r: "\<bar>?c / fact 26 * ?q ^ 26\<bar> \<le> ?q ^ 26 / fact 26" by simp
  from r t have "?P - ?q ^ 26 / fact 26 \<le> cos ?q" and "cos ?q \<le> ?P + ?q ^ 26 / fact 26"
    by linarith+
  with cos_taylor_lower cos_taylor_upper show ?thesis by linarith
qed

lemma sin_half_np_pi: "1 - 1 / 10 ^ 16 \<le> sin (np_pi / 2) \<and> sin (np_pi / 2) \<le> 1"
proof -
  let ?s = "sin (np_pi / 2)" and ?c = "cos (np_pi / 2)"
  have c: "0 \<le> ?c" "?c \<le> 1 / 10 ^ 16" using cos_half_np_pi by simp_all
  have s0: "0 < ?s" by (rule sin_gt_zero_02) (simp_all add: np_pi_def)
  have s1: "?s \<le> 1" by simp
  have "?s\<^sup>2 = 1 - ?c\<^sup>2" by (rule sin_squared_eq)
  moreover have "?c\<^sup>2 \<le> ?c" using c by (simp add: power2_eq_square mult_left_le)
  moreover have "?s\<^sup>2 \<le> ?s" using s0 s1 by (simp add: power2_eq_square mult_left_le)
  ultimately show ?thesis using c s1 by linarith
qed

text \<open>
  C8, as the code has it. \<open>Environment.move(100)\<close> from location \<open>(0, 0)\<close> with heading
  \<open>90\<close> appends exactly one breadcrumb, centred at the location before the move (so it is
  taken before the location is updated), and the new location lies within \<open>1 / 10 ^ 14\<close> of
  \<open>(0, 100)\<close> in each coordinate; its first coordinate is positive, not 0.
\<close>

theorem move_breadcrumb_then_near_location:
  assumes "env_loc e = (0, 0)" and "env_direction e = 90"
  shows "breadcrumbs (Environment_move e 100) = breadcrumbs e @ [\<lparr>center = (0, 0), radius = 16.25\<rparr>]
       \<and> 0 < fst (env_loc (Environment_move e 100))
       \<and> fst (env_loc (Environment_move e 100)) \<le> 1 / 10 ^ 14
       \<and> 100 - 1 / 10 ^ 14 \<le> snd (env_loc (Environment_move e 100))
       \<and> snd (env_loc (Environment_move e 100)) \<le> 100"
proof -
  have l: "env_loc (Environment_move e 100) = (100 * cos (np_pi / 2), 100 * sin (np_pi / 2))"
    using assms
    by (simp add: Environment_move_def add_breadcumb_def conv_radial_def loc_def
                  update_scan_field_def Let_def)
  have b: "breadcrumbs (Environment_move e 100)
           = breadcrumbs e @ [\<lparr>center = (0, 0), radius = 16.25\<rparr>]"
    using assms
    by (simp add: Environment_move_def add_breadcumb_def conv_radial_def loc_def
                  update_scan_field_def Let_def)
  from cos_half_np_pi sin_half_np_pi l b show ?thesis by simp
qed

theorem move_breadcrumb_then_near_location_witness:
  "env_loc Environment_init = (0, 0) \<and> env_direction Environment_init = 90
   \<and> breadcrumbs (Environment_move Environment_init 100) = [\<lparr>center = (0, 0), radius = 16.25\<rparr>]
   \<and> 0 < fst (env_loc (Environment_move Environment_init 100))
   \<and> fst (env_loc (Environment_move Environment_init 100)) \<le> 1 / 10 ^ 14
   \<and> 100 - 1 / 10 ^ 14 \<le> snd (env_loc (Environment_move Environment_init 100))
   \<and> snd (env_loc (Environment_move Environment_init 100)) \<le> 100"
proof -
  have l: "env_loc Environment_init = (0, 0)"
    by (simp add: Environment_init_def update_scan_field_def)
  have d: "env_direction Environment_init = 90"
    by (simp add: Environment_init_def update_scan_field_def)
  have b: "breadcrumbs Environment_init = []"
    by (simp add: Environment_init_def update_scan_field_def)
  show ?thesis
    using move_breadcrumb_then_near_location [OF l d] l d b by simp
qed

text \<open>
  C8, as claimed, says that the new location equals \<open>(0, 100)\<close>. From the initial
  environment (location \<open>(0, 0)\<close>, heading \<open>90\<close>) the move by 100 ends at a location whose
  first coordinate is \<open>100 * cos (np.pi / 2)\<close>, which is not 0.
\<close>

theorem move_location_not_exact:
  "env_loc Environment_init = (0, 0) \<and> env_direction Environment_init = 90
   \<and> env_loc (Environment_move Environment_init 100) \<noteq> (0, 100)"
proof -
  have "env_loc (Environment_move Environment_init 100)
        = (100 * cos (np_pi / 2), 100 * sin (np_pi / 2))"
    by (simp add: Environment_move_def add_breadcumb_def conv_radial_def loc_def
                  update_scan_field_def Environment_init_def Let_def)
  moreover have "0 < cos (np_pi / 2)" using cos_half_np_pi by simp
  ultimately show ?thesis
    by (simp add: Environment_init_def update_scan_field_def)
qed

text \<open>
  C3. \<open>finalize_contours\<close> is claimed to be idempotent and to leave the volatile list empty.
  The code never empties the volatile list, so a second call appends the same contours
  again: with one volatile contour, one call leaves it volatile, and two calls leave two
  copies of it among the finalized contours.
\<close>

theorem finalize_contours_twice_duplicates:
  "volatile_contours (finalize_contours (add_contour Environment_init [0, 1] [0, 1] True))
     = [([0, 1], [0, 1])]
   \<and> contours (finalize_contours (add_contour Environment_init [0, 1] [0, 1] True))
     = [([0, 1], [0, 1])]
   \<and> contours (finalize_contours (finalize_contours
                  (add_contour Environment_init [0, 1] [0, 1] True)))
     = [([0, 1], [0, 1]), ([0, 1], [0, 1])]"
  by (simp add: finalize_contours_def clear_volatile_contours_def add_contour_def
                Environment_init_def update_scan_field_def)

text \<open>
  C2. \<open>Environment.add_scan\<close> is claimed to project both channels through \<open>conv_radial\<close>.
  The sonar channel is projected with its angle column in the place of its radii: at the
  initial pose the sonar sample \<open>(0, 50)\<close> is stored as the point \<open>(0, 0)\<close>, while
  \<open>conv_radial\<close> of that sample is \<open>(50, 0)\<close>; the same sample in the IR channel is stored
  as \<open>(50, 0)\<close>.
\<close>

theorem add_scan_sonar_uses_angle_as_radius:
  "(case Environment_add_scan Environment_init ([(0, Val 50)], [(0, Val 50)]) of
      Inl err \<Rightarrow> False
    | Inr e \<Rightarrow> sonar_obs e = [[(Val 0, Val 0)]] \<and> ir_obs e = [[(Val 50, Val 0)]])
   \<and> conv_radial Environment_init 0 50 = (50, 0)"
  by (simp add: Environment_add_scan_def conv_radial_arr_def conv_radial_def
                Environment_init_def update_scan_field_def Let_def)

section \<open>Properties of the scanner\<close>

text \<open>
  C1. The merged scan is claimed to be the input samples reordered by ascending angle,
  each angle with its own radius. \<open>np.sort(..., axis=0)\<close> sorts the two columns
  independently, so the pairs are not kept: for the one batch \<open>(20, 5), (10, 7)\<close> the
  merged scan is \<open>(10, 5), (20, 7)\<close>, and \<open>(10, 5)\<close> is no sample of the input.
\<close>

theorem merge_sorts_columns_apart:
  "comb_scans (Scanner_add_scan Scanner_init
       ([(20, Val 5), (10, Val 7)], [(20, Val 5), (10, Val 7)]))
     = Inr ([(10, Val 5), (20, Val 7)], [(10, Val 5), (20, Val 7)])
   \<and> (10, Val 5) \<notin> set [(20, Val 5), (10 :: real, Val 7)]"
  by (simp add: comb_scans_def Scanner_add_scan_def Scanner_init_def np_sort_axis0_def)

text \<open>
  C4. A run of valid readings that is still open at the end of the merged scan is claimed
  to be flushed with the width test. The loop's end test compares \<open>i\<close> with the number of
  rows, which \<open>i\<close> never reaches, so the run is dropped: two valid readings at 10 and 20
  degrees, 10 degrees apart, give no cluster.
\<close>

theorem open_run_at_end_is_dropped:
  "find_obj_clouds (Scanner_add_scan Scanner_init
       ([(10, Val 5), (20, Val 5)], [(10, Val 5), (20, Val 5)])) = Inr []"
  by (simp add: find_obj_clouds_def comb_scans_def Scanner_add_scan_def Scanner_init_def
                np_sort_axis0_def obj_ranges_def seg_step_def seg_init_def min_width_def upt_rec)

subsection \<open>The loop invariant\<close>








subsection \<open>Inputs without a valid reading\<close>

lemma seg_step_gap_closed:
  "snd (ir ! i) = NaN \<Longrightarrow> start_deg st = None \<Longrightarrow> seg_step ir i st = st"
  by (simp add: seg_step_def)

lemma fold_all_gap:
  assumes "\<forall>row \<in> set ir. snd row = NaN"
  shows "k \<le> length ir \<Longrightarrow> fold (seg_step ir) [0..<k] seg_init = seg_init"
proof (induction k)
  case 0
  show ?case by simp
next
  case (Suc k)
  then have "snd (ir ! k) = NaN" using assms by simp
  with Suc show ?case by (simp add: seg_step_gap_closed seg_init_def)
qed

lemma obj_ranges_all_gap:
  "\<forall>row \<in> set ir. snd row = NaN \<Longrightarrow> obj_ranges ir = []"
  using fold_all_gap [of ir "length ir"] by (simp add: obj_ranges_def seg_init_def)

lemma set_snd_np_sort_axis0: "snd ` set (np_sort_axis0 a) = snd ` set a"
proof -
  have "map snd (np_sort_axis0 a) = sort_key nan_last (map snd a)"
    by (simp add: np_sort_axis0_def)
  then have "set (map snd (np_sort_axis0 a)) = set (map snd a)"
    by simp
  then show ?thesis by simp
qed

lemma fst_foldl_comb:
  "fst (foldl (\<lambda>c s. (fst c @ fst s, snd c @ snd s)) c0 rest) = fst c0 @ concat (map fst rest)"
  by (induction rest arbitrary: c0) simp_all

lemma snd_foldl_comb:
  "snd (foldl (\<lambda>c s. (fst c @ fst s, snd c @ snd s)) c0 rest) = snd c0 @ concat (map snd rest)"
  by (induction rest arbitrary: c0) simp_all

lemma comb_scans_concat:
  "scans sc \<noteq> [] \<Longrightarrow>
   comb_scans sc = Inr (np_sort_axis0 (concat (map fst (scans sc))),
                        np_sort_axis0 (concat (map snd (scans sc))))"
  by (cases "scans sc") (simp_all add: comb_scans_def Let_def fst_foldl_comb snd_foldl_comb)

text \<open>
  C9, as the code has it. With no scan added, \<open>find_obj_clouds\<close> raises
  \<open>NotImplementedError\<close>. With at least one scan added and every IR radius a gap (also when
  the scans hold no rows at all), it returns the empty list and raises nothing.
\<close>

theorem no_scan_raises_all_gap_returns_empty:
  "(scans sc = [] \<longrightarrow> find_obj_clouds sc = Inl NotImplementedError)
   \<and> (scans sc \<noteq> [] \<and> (\<forall>batch \<in> set (scans sc). \<forall>row \<in> set (fst batch). snd row = NaN)
        \<longrightarrow> find_obj_clouds sc = Inr [])"
proof (intro conjI impI)
  assume "scans sc = []"
  then show "find_obj_clouds sc = Inl NotImplementedError"
    by (simp add: find_obj_clouds_def comb_scans_def)
next
  assume h: "scans sc \<noteq> []
             \<and> (\<forall>batch \<in> set (scans sc). \<forall>row \<in> set (fst batch). snd row = NaN)"
  let ?ir = "np_sort_axis0 (concat (map fst (scans sc)))"
  have "snd ` set ?ir = snd ` set (concat (map fst (scans sc)))"
    by (rule set_snd_np_sort_axis0)
  also have "\<dots> \<subseteq> {NaN}" using h by auto
  finally have "\<forall>row \<in> set ?ir. snd row = NaN" by auto
  then have "obj_ranges ?ir = []" by (rule obj_ranges_all_gap)
  with h show "find_obj_clouds sc = Inr []"
    by (simp add: find_obj_clouds_def comb_scans_concat)
qed

theorem no_scan_raises_all_gap_returns_empty_witness:
  "scans (Scanner_add_scan Scanner_init ([(10, NaN), (20, NaN)], [(10, Val 4), (20, Val 4)])) \<noteq> []
   \<and> find_obj_clouds
        (Scanner_add_scan Scanner_init ([(10, NaN), (20, NaN)], [(10, Val 4), (20, Val 4)]))
       = Inr []
   \<and> scans Scanner_init = []
   \<and> find_obj_clouds Scanner_init = Inl NotImplementedError"
  using no_scan_raises_all_gap_returns_empty
          [of "Scanner_add_scan Scanner_init ([(10, NaN), (20, NaN)], [(10, Val 4), (20, Val 4)])"]
        no_scan_raises_all_gap_returns_empty [of Scanner_init]
  by (simp add: Scanner_add_scan_def Scanner_init_def)

text \<open>
  C9, as claimed, says that the empty input gives the empty cluster list and no error. A
  scanner that was given no scan raises instead.
\<close>

theorem no_scan_is_an_error:
  "scans Scanner_init = [] \<and> find_obj_clouds Scanner_init \<noteq> Inr []"
  by (simp add: find_obj_clouds_def comb_scans_def Scanner_init_def)

section \<open>Properties of the rover\<close>

lemma pose_finalize_contours:
  "env_loc (finalize_contours e) = env_loc e
   \<and> env_direction (finalize_contours e) = env_direction e"
  by (simp add: finalize_contours_def clear_volatile_contours_def)

lemma run_steps_finalize_prefix:
  "run_steps (finalize_steps @ fs) r =
     r # r\<lparr>scanner := Scanner_init\<rparr> #
     run_steps fs (r\<lparr>scanner := Scanner_init, env := finalize_contours (env r)\<rparr>)"
  by (simp add: finalize_steps_def)

lemma length_run_steps: "length (run_steps fs s) = Suc (length fs)"
  by (induction fs arbitrary: s) simp_all

lemma run_steps_first: "run_steps fs s ! 0 = s"
  by (cases fs) simp_all

lemma finalized_before_pose_change_prefix:
  "finalized_before_pose_change r (run_steps (finalize_steps @ fs) r)"
proof -
  let ?r2 = "r\<lparr>scanner := Scanner_init, env := finalize_contours (env r)\<rparr>"
  have p1: "pose (r\<lparr>scanner := Scanner_init\<rparr>) = pose r" by (simp add: pose_def)
  have p2: "pose ?r2 = pose r" by (simp add: pose_def pose_finalize_contours)
  have "2 \<le> k"
    if "Suc k < length (run_steps (finalize_steps @ fs) r)"
      and "pose (run_steps (finalize_steps @ fs) r ! Suc k)
           \<noteq> pose (run_steps (finalize_steps @ fs) r ! k)" for k
  proof (rule ccontr)
    assume "\<not> 2 \<le> k"
    then have "k = 0 \<or> k = 1" by arith
    with that(2) show False
      by (auto simp: run_steps_finalize_prefix run_steps_first p1 p2)
  qed
  then show ?thesis
    unfolding finalized_before_pose_change_def
    by (simp add: run_steps_finalize_prefix run_steps_first length_run_steps)
qed

lemma Rover_move_last_state:
  "snd (Rover_move full_distance oi_move r distance speed)
     = last (Rover_move_states full_distance oi_move r distance speed)"
  by (simp add: Rover_move_def Rover_move_states_def move_steps_def finalize_steps_def
                finalize_for_reorientation_def Let_def split: option.splits prod.splits)

lemma Rover_rotate_last_state:
  "snd (Rover_rotate oi_rotate r delta) = last (Rover_rotate_states oi_rotate r delta)"
  by (simp add: Rover_rotate_def Rover_rotate_states_def rotate_steps_def finalize_steps_def
                finalize_for_reorientation_def Let_def)

text \<open>
  C5. In every run of \<open>Rover.move\<close> and of \<open>Rover.rotate\<close>, whatever the actuator answers,
  the scanner is replaced by a fresh one first, \<open>finalize_contours\<close> comes second, and
  the location or heading changes only in a later statement. The runs end in the state that
  \<open>move\<close> and \<open>rotate\<close> return.
\<close>

theorem finalize_precedes_pose_change:
  "finalized_before_pose_change r (Rover_move_states full_distance oi_move r distance speed)
   \<and> last (Rover_move_states full_distance oi_move r distance speed)
       = snd (Rover_move full_distance oi_move r distance speed)
   \<and> finalized_before_pose_change r (Rover_rotate_states oi_rotate r delta)
   \<and> last (Rover_rotate_states oi_rotate r delta) = snd (Rover_rotate oi_rotate r delta)"
  by (simp add: Rover_move_states_def move_steps_def Rover_rotate_states_def rotate_steps_def
                finalized_before_pose_change_prefix
                Rover_move_last_state [unfolded Rover_move_states_def move_steps_def]
                Rover_rotate_last_state [unfolded Rover_rotate_states_def rotate_steps_def])

text \<open>
  A move of 100 that reaches its full distance and a rotation by 45 degrees, from the
  initial rover: in both runs the third statement is the one that changes the pose.
\<close>

theorem finalize_precedes_pose_change_witness:
  "finalized_before_pose_change Rover_init
     (Rover_move_states True (\<lambda>d s. Some (d, True)) Rover_init 100 90)
   \<and> length (Rover_move_states True (\<lambda>d s. Some (d, True)) Rover_init 100 90) = 4
   \<and> length (Rover_rotate_states (\<lambda>d. True) Rover_init 45) = 4
   \<and> pose (Rover_move_states True (\<lambda>d s. Some (d, True)) Rover_init 100 90 ! 3)
       \<noteq> pose (Rover_move_states True (\<lambda>d s. Some (d, True)) Rover_init 100 90 ! 2)
   \<and> finalized_before_pose_change Rover_init (Rover_rotate_states (\<lambda>d. True) Rover_init 45)
   \<and> pose (Rover_rotate_states (\<lambda>d. True) Rover_init 45 ! 3)
       \<noteq> pose (Rover_rotate_states (\<lambda>d. True) Rover_init 45 ! 2)"
proof -
  have m: "pose (Rover_move_states True (\<lambda>d s. Some (d, True)) Rover_init 100 90 ! 3)
           \<noteq> pose (Rover_move_states True (\<lambda>d s. Some (d, True)) Rover_init 100 90 ! 2)"
    using cos_half_np_pi
    by (simp add: Rover_move_states_def move_steps_def finalize_steps_def pose_def
                  Rover_init_def Environment_init_def update_scan_field_def
                  finalize_contours_def clear_volatile_contours_def Environment_move_def
                  add_breadcumb_def conv_radial_def loc_def Let_def eval_nat_numeral)
  have t: "pose (Rover_rotate_states (\<lambda>d. True) Rover_init 45 ! 3)
           \<noteq> pose (Rover_rotate_states (\<lambda>d. True) Rover_init 45 ! 2)"
    by (simp add: Rover_rotate_states_def rotate_steps_def finalize_steps_def pose_def
                  Rover_init_def Environment_init_def update_scan_field_def
                  finalize_contours_def clear_volatile_contours_def Environment_rotate_def
                  direction_def eval_nat_numeral)
  have lm: "length (Rover_move_states True (\<lambda>d s. Some (d, True)) Rover_init 100 90) = 4"
    by (simp add: Rover_move_states_def move_steps_def finalize_steps_def)
  have lt: "length (Rover_rotate_states (\<lambda>d. True) Rover_init 45) = 4"
    by (simp add: Rover_rotate_states_def rotate_steps_def finalize_steps_def)
  from finalize_precedes_pose_change
         [of Rover_init True "\<lambda>d s. Some (d, True)" 100 90 "\<lambda>d. True" 45] m t lm lt
  show ?thesis by blast
qed

subsection \<open>The angles of a scan\<close>

lemma py_range_up: "set (py_range i stop 1) = {i..<stop}"
proof (induction i stop "1::int" rule: py_range.induct)
  case (1 i stop)
  show ?case
  proof (cases "i < stop")
    case True
    with 1 have "set (py_range (i + 1) stop 1) = {i + 1..<stop}" by simp
    with True show ?thesis by (subst py_range.simps) auto
  next
    case False
    then show ?thesis by (subst py_range.simps) simp
  qed
qed

lemma py_range_down_empty: "i \<le> stop \<Longrightarrow> py_range i stop (- 1) = []"
  by (subst py_range.simps) simp

text \<open>
  C10. For \<open>start \<le> end\<close> the angles at which readings are requested are exactly
  \<open>start, start + 1, ..., end - 1\<close>; the end angle is not among them.
\<close>

theorem scan_ascending_excludes_end:
  assumes "start \<le> end_angle"
  shows "set (scan_angles start end_angle) = {start..<end_angle}
       \<and> end_angle \<notin> set (scan_angles start end_angle)"
  using assms by (simp add: scan_angles_def py_range_up)

theorem scan_ascending_excludes_end_witness:
  "(0::int) \<le> 180 \<and> set (scan_angles 0 180) = {0..<180} \<and> 180 \<notin> set (scan_angles 0 180)"
  using scan_ascending_excludes_end [of 0 180] by simp

text \<open>
  C7. For \<open>start > end\<close> the angles are claimed to descend from \<open>start\<close> to \<open>end\<close>. The code
  builds \<open>range(end, start, -1)\<close>, which counts down from the smaller bound and is empty:
  a scan from 180 to 0 requests no reading at all.
\<close>

theorem scan_descending_requests_nothing:
  "scan_angles 180 0 = []"
  by (simp add: scan_angles_def py_range_down_empty)

end
